theory Spec2Isabelle
  imports Complex_Main "HOL-Library.Multiset"
begin

section \<open>Values shared by the raster and the vector pipeline\<close>

text \<open>
  \<^verbatim>\<open>src/ai/scripts/data_pipeline.py\<close> defines no exception class of its own. Every
  failure of \<open>GeoDataPipeline\<close> is an exception raised inside a library call
  (rasterio, geopandas, shapely), logged by the \<open>except Exception\<close> handler and raised
  again unchanged. Such an exception is \<open>LibraryError\<close> with the name the library gave
  it. The other three constructors are the error kinds the specification names for
  band math, spatial join and buffering; they are part of the type so that statements
  about them can be written and settled.
\<close>

datatype error =
    InsufficientBands
  | CrsMismatch
  | InvalidDistance
  | LibraryError string

text \<open>
  A Python \<open>float\<close>: a finite value or one of the three special values. Finite values
  are real numbers; rounding to 64 bits is not modelled.
\<close>

datatype pyfloat = Finite real | PosInf | NegInf | NaN

text \<open>
  numpy's true division of two finite operands. Division by zero raises nothing: it
  yields an infinity of the sign of the numerator, or NaN for \<open>0 / 0\<close>.
\<close>

definition np_true_divide :: "real \<Rightarrow> real \<Rightarrow> pyfloat" where
  "np_true_divide a b =
     (if b = 0 then (if a = 0 then NaN else if 0 < a then PosInf else NegInf)
      else Finite (a / b))"

section \<open>Raster pipeline\<close>

type_synonym bounds = "real \<times> real \<times> real \<times> real"
type_synonym affine = "real \<times> real \<times> real \<times> real \<times> real \<times> real"
type_synonym grid = "real list list"
type_synonym ndarray = "grid list"

text \<open>
  An opened rasterio dataset (\<open>src\<close> in the source), with the attributes the pipeline
  reads. \<open>ds_crs\<close> is \<open>str(src.crs)\<close>, \<open>ds_bands\<close> is what \<open>src.read()\<close> returns: an
  array of shape (count, height, width), one grid per band, band 1 first. Pixel values
  of every storage type are finite reals.
\<close>

record dataset =
  ds_bounds :: bounds
  ds_crs :: string
  ds_width :: nat
  ds_height :: nat
  ds_count :: nat
  ds_dtypes :: "string list"
  ds_nodata :: "real option"
  ds_transform :: affine
  ds_bands :: ndarray

text \<open>
  The \<open>metadata\<close> dictionary. Its keys are fixed except for \<open>'nodata'\<close>, which
  \<open>ingest_raster_data\<close> writes (possibly as Python's \<open>None\<close>) and
  \<open>_reproject_raster\<close> leaves out: \<open>md_nodata = None\<close> is the absent key,
  \<open>Some None\<close> the key holding \<open>None\<close>.
\<close>

record metadata =
  md_bounds :: bounds
  md_crs :: string
  md_width :: nat
  md_height :: nat
  md_count :: nat
  md_dtype :: string
  md_nodata :: "real option option"
  md_transform :: affine

record data_dict =
  dd_data :: ndarray
  dd_metadata :: metadata

text \<open>
  The functions of rasterio that the pipeline calls are parameters of the model; each
  may raise, which is \<open>Inl\<close> with the exception's name.
  \<^item> \<open>rasterio.open\<close>: path to dataset;
  \<^item> \<open>calculate_default_transform(src_crs, dst_crs, width, height, *bounds)\<close>;
  \<^item> \<open>reproject(source band, destination, src_transform, src_crs, dst_transform,
    dst_crs, bilinear)\<close>, which fills the destination grid it is given;
  \<^item> \<open>rasterio.transform.array_bounds(height, width, transform)\<close>.
\<close>

type_synonym rasterio_open = "string \<Rightarrow> string + dataset"
type_synonym calc_transform =
  "string \<Rightarrow> string \<Rightarrow> nat \<Rightarrow> nat \<Rightarrow> bounds \<Rightarrow> string + (affine \<times> nat \<times> nat)"
type_synonym warp_reproject =
  "grid \<Rightarrow> grid \<Rightarrow> affine \<Rightarrow> string \<Rightarrow> affine \<Rightarrow> string \<Rightarrow> string + grid"
type_synonym array_bounds = "nat \<Rightarrow> nat \<Rightarrow> affine \<Rightarrow> bounds"

text \<open>\<open>src.dtypes[0]\<close>: IndexError on a dataset without bands.\<close>

definition first_dtype :: "dataset \<Rightarrow> error + string" where
  "first_dtype src =
     (case ds_dtypes src of [] \<Rightarrow> Inl (LibraryError ''IndexError'') | dt # _ \<Rightarrow> Inr dt)"

text \<open>\<open>np.zeros((height, width))\<close>, one band of the destination array.\<close>

definition zeros :: "nat \<Rightarrow> nat \<Rightarrow> grid" where
  "zeros height width = replicate height (replicate width 0)"

text \<open>
  The loop \<open>for i in range(1, src.count + 1)\<close> of \<open>_reproject_raster\<close>, over the
  bands still to be warped; the first exception ends it.
\<close>

fun reproject_bands ::
  "warp_reproject \<Rightarrow> dataset \<Rightarrow> string \<Rightarrow> affine \<Rightarrow> nat \<Rightarrow> nat \<Rightarrow> grid list \<Rightarrow> error + ndarray"
where
  "reproject_bands rp src dst_crs transform height width [] = Inr []"
| "reproject_bands rp src dst_crs transform height width (band # rest) =
     (case rp band (zeros height width) (ds_transform src) (ds_crs src) transform dst_crs of
        Inl e \<Rightarrow> Inl (LibraryError e)
      | Inr filled \<Rightarrow>
          (case reproject_bands rp src dst_crs transform height width rest of
             Inl e \<Rightarrow> Inl e
           | Inr others \<Rightarrow> Inr (filled # others)))"

definition reproject_raster ::
  "calc_transform \<Rightarrow> warp_reproject \<Rightarrow> array_bounds \<Rightarrow> dataset \<Rightarrow> string
     \<Rightarrow> error + (ndarray \<times> metadata)"
where
  "reproject_raster cdt rp ab src target_crs =
     (let dst_crs = target_crs in
      case cdt (ds_crs src) dst_crs (ds_width src) (ds_height src) (ds_bounds src) of
        Inl e \<Rightarrow> Inl (LibraryError e)
      | Inr (transform, width, height) \<Rightarrow>
          (case first_dtype src of
             Inl e \<Rightarrow> Inl e
           | Inr dt \<Rightarrow>
               (case reproject_bands rp src dst_crs transform height width
                       (take (ds_count src) (ds_bands src)) of
                  Inl e \<Rightarrow> Inl e
                | Inr destination \<Rightarrow>
                    Inr (destination,
                         \<lparr> md_bounds = ab height width transform,
                           md_crs = dst_crs,
                           md_width = width,
                           md_height = height,
                           md_count = ds_count src,
                           md_dtype = dt,
                           md_nodata = None,
                           md_transform = transform \<rparr>))))"

definition ingest_raster_data ::
  "rasterio_open \<Rightarrow> calc_transform \<Rightarrow> warp_reproject \<Rightarrow> array_bounds \<Rightarrow> string \<Rightarrow> string
     \<Rightarrow> error + data_dict"
where
  "ingest_raster_data opn cdt rp ab file_path target_crs =
     (case opn file_path of
        Inl e \<Rightarrow> Inl (LibraryError e)
      | Inr src \<Rightarrow>
          (case first_dtype src of
             Inl e \<Rightarrow> Inl e
           | Inr dt \<Rightarrow>
               (let metadata = \<lparr> md_bounds = ds_bounds src,
                                 md_crs = ds_crs src,
                                 md_width = ds_width src,
                                 md_height = ds_height src,
                                 md_count = ds_count src,
                                 md_dtype = dt,
                                 md_nodata = Some (ds_nodata src),
                                 md_transform = ds_transform src \<rparr>;
                    data = ds_bands src
                in if ds_crs src \<noteq> target_crs
                   then (case reproject_raster cdt rp ab src target_crs of
                           Inl e \<Rightarrow> Inl e
                         | Inr (data', metadata') \<Rightarrow>
                             Inr \<lparr> dd_data = data', dd_metadata = metadata' \<rparr>)
                   else Inr \<lparr> dd_data = data, dd_metadata = metadata \<rparr>)))"

text \<open>
  \<open>(nir - red) / (nir + red + 1e-8)\<close> on two arrays of one shape, pixel by pixel.
  \<open>astype(float)\<close> changes the storage type only, so it is the identity on the reals.
\<close>

definition ndvi_pixel :: "real \<Rightarrow> real \<Rightarrow> pyfloat" where
  "ndvi_pixel nir red = np_true_divide (nir - red) (nir + red + 1 / 10 ^ 8)"

definition ndvi_grid :: "grid \<Rightarrow> grid \<Rightarrow> pyfloat list list" where
  "ndvi_grid nir red = map2 (map2 ndvi_pixel) nir red"

text \<open>
  One round of \<open>for operation in operations\<close>: \<open>'ndvi'\<close> writes its entry only when
  the array has at least four bands, \<open>'clip'\<close> and \<open>'resample'\<close> only log, and any
  other name (also \<open>'ndvi'\<close> on fewer bands) matches no branch.
\<close>

definition apply_operation ::
  "ndarray \<Rightarrow> (string \<rightharpoonup> pyfloat list list) \<Rightarrow> string \<Rightarrow> (string \<rightharpoonup> pyfloat list list)"
where
  "apply_operation data results operation =
     (if operation = ''ndvi'' \<and> 4 \<le> length data
      then (let nir = data ! 3; red = data ! 2
            in results(''ndvi'' \<mapsto> ndvi_grid nir red))
      else if operation = ''clip'' then results
      else if operation = ''resample'' then results
      else results)"

record processed =
  processed_data :: "string \<rightharpoonup> pyfloat list list"
  pr_metadata :: metadata

text \<open>
  \<open>process_satellite_imagery\<close> ingests with the default target CRS of
  \<open>ingest_raster_data\<close>, \<open>EPSG:4326\<close>.
\<close>

definition process_satellite_imagery ::
  "rasterio_open \<Rightarrow> calc_transform \<Rightarrow> warp_reproject \<Rightarrow> array_bounds \<Rightarrow> string \<Rightarrow> string list
     \<Rightarrow> error + processed"
where
  "process_satellite_imagery opn cdt rp ab file_path operations =
     (case ingest_raster_data opn cdt rp ab file_path ''EPSG:4326'' of
        Inl e \<Rightarrow> Inl e
      | Inr data_dict \<Rightarrow>
          Inr \<lparr> processed_data =
                  foldl (apply_operation (dd_data data_dict)) Map.empty operations,
                pr_metadata = dd_metadata data_dict \<rparr>)"

section \<open>Vector pipeline\<close>

text \<open>
  A GeoDataFrame as \<open>geopandas.read_file\<close> produces it: a CRS (\<open>None\<close> when the
  layer declares none), the names of the columns besides \<open>geometry\<close>, and rows in
  index order 0, 1, 2, ..., each with the value of the \<open>geometry\<close> column and the
  values of the other columns. The geometry type \<open>'g\<close> and the attribute type
  \<open>'a\<close> are left open where a function does not look into them.

  A CRS object is identified with its canonical name, the string \<open>str\<close> gives for
  it. A string a caller passes for a CRS may spell the same system differently;
  pyproj's \<open>CRS.from_user_input\<close>, a parameter, maps a spelling to the canonical name,
  or to \<open>None\<close> when it cannot be parsed.
\<close>

record ('g, 'a) feature =
  geometry :: 'g
  attrs :: 'a

record 'r frame =
  gdf_crs :: "string option"
  gdf_columns :: "string list"
  gdf_rows :: "'r list"

type_synonym ('g, 'a) geodataframe = "('g, 'a) feature frame"

text \<open>
  \<open>gdf.crs != crs\<close> compares a CRS object (or \<open>None\<close>) with a string: pyproj parses
  the string and compares the two systems, and a string it cannot parse is unequal to
  every CRS. \<open>None\<close> is unequal to every string.
\<close>

definition crs_differs :: "(string \<Rightarrow> string option) \<Rightarrow> string option \<Rightarrow> string \<Rightarrow> bool" where
  "crs_differs from_user_input frame_crs crs =
     (case frame_crs of
        None \<Rightarrow> True
      | Some name \<Rightarrow> from_user_input crs \<noteq> Some name)"

text \<open>
  \<open>ingest_vector_data\<close>: \<open>gpd.read_file\<close> and \<open>GeoDataFrame.to_crs\<close> are parameters.
\<close>

definition ingest_vector_data ::
  "(string \<Rightarrow> string option)
     \<Rightarrow> (string \<Rightarrow> string + ('g, 'a) geodataframe)
     \<Rightarrow> (('g, 'a) geodataframe \<Rightarrow> string \<Rightarrow> string + ('g, 'a) geodataframe)
     \<Rightarrow> string \<Rightarrow> string \<Rightarrow> error + ('g, 'a) geodataframe"
where
  "ingest_vector_data from_user_input read_file to_crs file_path crs =
     (case read_file file_path of
        Inl e \<Rightarrow> Inl (LibraryError e)
      | Inr gdf \<Rightarrow>
          if crs_differs from_user_input (gdf_crs gdf) crs
          then (case to_crs gdf crs of
                  Inl e \<Rightarrow> Inl (LibraryError e)
                | Inr gdf' \<Rightarrow> Inr gdf')
          else Inr gdf)"

subsection \<open>Geometries\<close>

text \<open>
  The four geometry types of the pipeline, with their coordinates as shapely holds
  them: a polygon is its outer ring and its holes, a ring is a list of vertices whose
  last entry repeats the first, and \<open>Polygon [] []\<close> is the empty polygon.

  \<open>covers g p\<close> says that the point \<open>p\<close> belongs to the geometry \<open>g\<close>, where a
  geometry is the set of points of its interior and of its boundary: a point is
  itself, a line its segments with their end points, a polygon the region enclosed by
  its outer ring, the ring included, without the points strictly inside a hole. A point
  is enclosed by a ring when a ray from it to the right crosses the ring an odd number
  of times.
\<close>

type_synonym point = "real \<times> real"

datatype geom =
    Point point
  | LineString "point list"
  | Polygon "point list" "point list list"
  | MultiPolygon "(point list \<times> point list list) list"

definition on_segment :: "point \<Rightarrow> point \<Rightarrow> point \<Rightarrow> bool" where
  "on_segment a b p =
     (case (a, b, p) of ((ax, ay), (bx, by), (px, py)) \<Rightarrow>
        (bx - ax) * (py - ay) = (by - ay) * (px - ax)
      \<and> min ax bx \<le> px \<and> px \<le> max ax bx
      \<and> min ay by \<le> py \<and> py \<le> max ay by)"

definition ring_edges :: "point list \<Rightarrow> (point \<times> point) list" where
  "ring_edges ring = zip ring (rotate1 ring)"

definition on_ring :: "point list \<Rightarrow> point \<Rightarrow> bool" where
  "on_ring ring p = list_ex (\<lambda>(a, b). on_segment a b p) (ring_edges ring)"

definition crosses_ray :: "point \<Rightarrow> point \<Rightarrow> point \<Rightarrow> bool" where
  "crosses_ray a b p =
     (case (a, b, p) of ((ax, ay), (bx, by), (px, py)) \<Rightarrow>
        (py < ay) \<noteq> (py < by)
      \<and> px < ax + (py - ay) * (bx - ax) / (by - ay))"

definition inside_ring :: "point list \<Rightarrow> point \<Rightarrow> bool" where
  "inside_ring ring p = odd (length (filter (\<lambda>(a, b). crosses_ray a b p) (ring_edges ring)))"

definition in_polygon :: "point list \<Rightarrow> point list list \<Rightarrow> point \<Rightarrow> bool" where
  "in_polygon shell holes p =
     ((on_ring shell p \<or> inside_ring shell p)
      \<and> \<not> list_ex (\<lambda>hole. inside_ring hole p \<and> \<not> on_ring hole p) holes)"

fun covers :: "geom \<Rightarrow> point \<Rightarrow> bool" where
  "covers (Point q) p = (p = q)"
| "covers (LineString ps) p = list_ex (\<lambda>(a, b). on_segment a b p) (zip ps (tl ps))"
| "covers (Polygon shell holes) p = in_polygon shell holes p"
| "covers (MultiPolygon parts) p = list_ex (\<lambda>(shell, holes). in_polygon shell holes p) parts"

text \<open>
  The predicate \<open>intersects\<close> of shapely: two geometries intersect when they have a
  point in common, a point of a boundary counting like any other. Against a Point it
  is decided by \<open>covers\<close> (lemmas \<open>intersects_Point\<close> and
  \<open>intersects_Point_right\<close> below), which computes.
\<close>

definition intersects :: "geom \<Rightarrow> geom \<Rightarrow> bool" where
  "intersects g h = (\<exists>p. covers g p \<and> covers h p)"


subsection \<open>Spatial join\<close>

text \<open>
  \<open>spatial_join\<close> is one call of \<open>geopandas.sjoin\<close>, which is library code. The
  definition \<open>sjoin\<close> follows the behaviour of that function:
  \<^item> \<open>how\<close> must be \<open>'left'\<close>, \<open>'right'\<close> or \<open>'inner'\<close>, otherwise ValueError;
  \<^item> the result gets the index of the other frame as a column \<open>index_right\<close> or
    \<open>index_left\<close>, and a frame that already has a column of either name is refused
    with ValueError;
  \<^item> \<open>predicate\<close> must be a name the library knows, otherwise ValueError. The relation
    for \<open>'intersects'\<close> is \<open>intersects\<close> above; the relations for the other names
    are the parameter \<open>other_predicates\<close>, \<open>None\<close> for an unknown name;
  \<^item> the CRS of the two frames are compared only to emit a warning when they differ;
    the join then runs on the coordinates as they are;
  \<^item> \<open>'inner'\<close> yields one row for every pair of a left and a right row whose
    geometries satisfy the predicate (\<open>Both\<close>), with the left geometry, the left index
    and columns, and the right index and columns;
  \<^item> \<open>'left'\<close> yields, besides, every left row without a partner once, with the right
    side missing (\<open>LeftOnly\<close>);
  \<^item> \<open>'right'\<close> yields the pairs and every right row without a partner
    (\<open>RightOnly\<close>), and keeps the right geometry and CRS;
  \<^item> the order of the rows follows the library's spatial index. It is the parameter
    \<open>arrange\<close>, which receives the rows in the order left index, right index.
  The names of the result's columns are not modelled.
\<close>

datatype match = Both nat nat | LeftOnly nat | RightOnly nat

record ('a, 'b) joined =
  j_geometry :: geom
  j_left :: "(nat \<times> 'a) option"
  j_right :: "(nat \<times> 'b) option"

record ('a, 'b) joined_frame =
  jf_crs :: "string option"
  jf_rows :: "('a, 'b) joined list"

definition predicate_relation ::
  "(string \<Rightarrow> (geom \<Rightarrow> geom \<Rightarrow> bool) option) \<Rightarrow> string \<Rightarrow> (geom \<Rightarrow> geom \<Rightarrow> bool) option"
where
  "predicate_relation other_predicates name =
     (if name = ''intersects'' then Some intersects else other_predicates name)"

definition reserved_names :: "string list \<Rightarrow> bool" where
  "reserved_names columns =
     (''index_left'' \<in> set columns \<or> ''index_right'' \<in> set columns)"

definition matching_pairs ::
  "(geom \<Rightarrow> geom \<Rightarrow> bool) \<Rightarrow> (geom, 'a) feature list \<Rightarrow> (geom, 'b) feature list
     \<Rightarrow> (nat \<times> nat) list"
where
  "matching_pairs p ls rs =
     filter (\<lambda>(i, j). p (geometry (ls ! i)) (geometry (rs ! j)))
       (List.product [0..<length ls] [0..<length rs])"

definition join_matches :: "string \<Rightarrow> (nat \<times> nat) list \<Rightarrow> nat \<Rightarrow> nat \<Rightarrow> match list" where
  "join_matches how pairs n m =
     map (\<lambda>(i, j). Both i j) pairs
     @ (if how = ''left''
        then map LeftOnly (filter (\<lambda>i. i \<notin> set (map fst pairs)) [0..<n]) else [])
     @ (if how = ''right''
        then map RightOnly (filter (\<lambda>j. j \<notin> set (map snd pairs)) [0..<m]) else [])"

fun join_row ::
  "string \<Rightarrow> (geom, 'a) feature list \<Rightarrow> (geom, 'b) feature list \<Rightarrow> match \<Rightarrow> ('a, 'b) joined"
where
  "join_row how ls rs (Both i j) =
     \<lparr> j_geometry = (if how = ''right'' then geometry (rs ! j) else geometry (ls ! i)),
       j_left = Some (i, attrs (ls ! i)),
       j_right = Some (j, attrs (rs ! j)) \<rparr>"
| "join_row how ls rs (LeftOnly i) =
     \<lparr> j_geometry = geometry (ls ! i), j_left = Some (i, attrs (ls ! i)), j_right = None \<rparr>"
| "join_row how ls rs (RightOnly j) =
     \<lparr> j_geometry = geometry (rs ! j), j_left = None, j_right = Some (j, attrs (rs ! j)) \<rparr>"

definition sjoin ::
  "(string \<Rightarrow> (geom \<Rightarrow> geom \<Rightarrow> bool) option) \<Rightarrow> (match list \<Rightarrow> match list)
     \<Rightarrow> (geom, 'a) geodataframe \<Rightarrow> (geom, 'b) geodataframe \<Rightarrow> string \<Rightarrow> string
     \<Rightarrow> string + ('a, 'b) joined_frame"
where
  "sjoin other_predicates arrange left_df right_df how predicate =
     (if how \<notin> set [''left'', ''right'', ''inner''] then Inl ''ValueError''
      else if reserved_names (gdf_columns left_df) \<or> reserved_names (gdf_columns right_df)
      then Inl ''ValueError''
      else case predicate_relation other_predicates predicate of
             None \<Rightarrow> Inl ''ValueError''
           | Some p \<Rightarrow>
               Inr \<lparr> jf_crs = (if how = ''right'' then gdf_crs right_df else gdf_crs left_df),
                     jf_rows =
                       map (join_row how (gdf_rows left_df) (gdf_rows right_df))
                         (arrange
                            (join_matches how
                               (matching_pairs p (gdf_rows left_df) (gdf_rows right_df))
                               (length (gdf_rows left_df)) (length (gdf_rows right_df)))) \<rparr>)"

text \<open>
  \<open>spatial_join\<close> itself: \<open>gpd.sjoin(gdf1, gdf2, how=how, predicate='intersects')\<close>
  inside \<open>try\<close>, with every exception raised again.
\<close>

definition spatial_join ::
  "(string \<Rightarrow> (geom \<Rightarrow> geom \<Rightarrow> bool) option) \<Rightarrow> (match list \<Rightarrow> match list)
     \<Rightarrow> (geom, 'a) geodataframe \<Rightarrow> (geom, 'b) geodataframe \<Rightarrow> string
     \<Rightarrow> error + ('a, 'b) joined_frame"
where
  "spatial_join other_predicates arrange gdf1 gdf2 how =
     (case sjoin other_predicates arrange gdf1 gdf2 how ''intersects'' of
        Inl e \<Rightarrow> Inl (LibraryError e)
      | Inr result \<Rightarrow> Inr result)"

subsection \<open>Buffer analysis\<close>

text \<open>
  \<open>buffer_analysis\<close> copies the frame it is given and assigns to a column of the copy,
  so frames live in a heap here: a list of frames, where an object's address is its
  position and a new object goes to the end. \<open>gdf.copy()\<close> allocates,
  \<open>gdf_buffered['geometry'] = ...\<close> overwrites the geometry of every row of the frame
  at the address \<open>gdf_buffered\<close>.

  \<open>GeoSeries.buffer(distance)\<close> buffers the geometries one by one with the same
  distance. What shapely (GEOS) computes for one geometry is the parameter \<open>buf\<close>: a
  new geometry, or an exception.
\<close>

type_synonym ('g, 'a) heap = "('g, 'a) geodataframe list"

fun series_buffer :: "('g \<Rightarrow> pyfloat \<Rightarrow> string + 'g) \<Rightarrow> 'g list \<Rightarrow> pyfloat \<Rightarrow> string + 'g list" where
  "series_buffer buf [] distance = Inr []"
| "series_buffer buf (g # gs) distance =
     (case buf g distance of
        Inl e \<Rightarrow> Inl e
      | Inr g' \<Rightarrow>
          (case series_buffer buf gs distance of
             Inl e \<Rightarrow> Inl e
           | Inr gs' \<Rightarrow> Inr (g' # gs')))"

definition set_geometry :: "('g, 'a) geodataframe \<Rightarrow> 'g list \<Rightarrow> ('g, 'a) geodataframe" where
  "set_geometry df gs = df\<lparr> gdf_rows := map2 (\<lambda>r g. r\<lparr> geometry := g \<rparr>) (gdf_rows df) gs \<rparr>"

definition buffer_analysis ::
  "('g \<Rightarrow> pyfloat \<Rightarrow> string + 'g) \<Rightarrow> ('g, 'a) heap \<Rightarrow> nat \<Rightarrow> pyfloat
     \<Rightarrow> (error + nat) \<times> ('g, 'a) heap"
where
  "buffer_analysis buf h gdf distance =
     (let gdf_buffered = length h;
          h1 = h @ [h ! gdf]
      in case series_buffer buf (map geometry (gdf_rows (h1 ! gdf))) distance of
           Inl e \<Rightarrow> (Inl (LibraryError e), h1)
         | Inr gs \<Rightarrow>
             (Inr gdf_buffered, h1[gdf_buffered := set_geometry (h1 ! gdf_buffered) gs]))"



subsection \<open>Statistics\<close>

text \<open>
  \<open>calculate_statistics\<close> reads two properties of each geometry, both parameters:
  \<open>area\<close> and \<open>bounds\<close> (minx, miny, maxx, maxy). Each is \<open>None\<close> where geopandas
  reports NaN (a missing geometry; for the bounds also an empty one).
  \<open>Series.sum\<close> and \<open>Series.mean\<close> skip NaN: the sum of nothing is 0, the mean of
  nothing is NaN. \<open>total_bounds\<close> is four NaN for a frame without rows and takes
  \<open>nanmin\<close> and \<open>nanmax\<close> otherwise, NaN again when no geometry has bounds.
\<close>

record stats =
  feature_count :: nat
  total_area :: pyfloat
  mean_area :: pyfloat
  st_bounds :: "pyfloat list"
  st_crs :: string

definition series_sum :: "real option list \<Rightarrow> pyfloat" where
  "series_sum xs = Finite (sum_list (List.map_filter id xs))"

definition series_mean :: "real option list \<Rightarrow> pyfloat" where
  "series_mean xs =
     (case List.map_filter id xs of
        [] \<Rightarrow> NaN
      | v # vs \<Rightarrow> Finite (sum_list (v # vs) / real (length (v # vs))))"

definition total_bounds :: "bounds option list \<Rightarrow> pyfloat list" where
  "total_bounds bs =
     (if length bs = 0 then [NaN, NaN, NaN, NaN]
      else case List.map_filter id bs of
             [] \<Rightarrow> [NaN, NaN, NaN, NaN]
           | (minx, miny, maxx, maxy) # more_bounds \<Rightarrow>
               [Finite (fold min (map fst more_bounds) minx),
                Finite (fold min (map (fst \<circ> snd) more_bounds) miny),
                Finite (fold max (map (fst \<circ> snd \<circ> snd) more_bounds) maxx),
                Finite (fold max (map (snd \<circ> snd \<circ> snd) more_bounds) maxy)])"

definition calculate_statistics ::
  "('g \<Rightarrow> real option) \<Rightarrow> ('g \<Rightarrow> bounds option) \<Rightarrow> ('g, 'a) geodataframe \<Rightarrow> stats"
where
  "calculate_statistics area bnds gdf =
     \<lparr> feature_count = length (gdf_rows gdf),
       total_area = series_sum (map (area \<circ> geometry) (gdf_rows gdf)),
       mean_area = series_mean (map (area \<circ> geometry) (gdf_rows gdf)),
       st_bounds = total_bounds (map (bnds \<circ> geometry) (gdf_rows gdf)),
       st_crs = (case gdf_crs gdf of None \<Rightarrow> ''None'' | Some c \<Rightarrow> c) \<rparr>"

section \<open>Example data\<close>

text \<open>
  Concrete inputs on which the theorems below are instantiated. The raster files are
  already in EPSG:4326, so under that target the stand-ins for the warping functions
  are never reached. \<open>same_grid\<close> and \<open>copy_band\<close> stand for a warp between two
  spellings of one CRS that reproduces the grid exactly. \<open>epsg_names\<close> stands for
  pyproj's parser on the two systems used here, in either letter case.
\<close>

definition single_file :: "string \<Rightarrow> dataset \<Rightarrow> rasterio_open" where
  "single_file name ds file_path =
     (if file_path = name then Inr ds else Inl ''RasterioIOError'')"

definition no_transform :: calc_transform where
  "no_transform src_crs dst_crs width height bnds = Inl ''CRSError''"

definition no_reproject :: warp_reproject where
  "no_reproject source destination src_transform src_crs dst_transform dst_crs =
     Inl ''CRSError''"

definition edge_bounds :: array_bounds where
  "edge_bounds height width t =
     (case t of (a, b, c, d, e, f) \<Rightarrow> (c, f + e * real height, c + a * real width, f))"

definition scene :: dataset where
  "scene = \<lparr> ds_bounds = (0, 0, 2, 2), ds_crs = ''EPSG:4326'', ds_width = 2, ds_height = 2,
             ds_count = 4, ds_dtypes = [''uint8'', ''uint8'', ''uint8'', ''uint8''],
             ds_nodata = None, ds_transform = (1, 0, 0, 0, -1, 2),
             ds_bands = [[[1, 2], [3, 4]], [[5, 6], [7, 8]],
                         [[10, 10], [10, 10]], [[30, 30], [30, 30]]] \<rparr>"

definition rgb :: dataset where
  "rgb = \<lparr> ds_bounds = (0, 0, 2, 2), ds_crs = ''EPSG:4326'', ds_width = 2, ds_height = 2,
           ds_count = 3, ds_dtypes = [''uint8'', ''uint8'', ''uint8''],
           ds_nodata = None, ds_transform = (1, 0, 0, 0, -1, 2),
           ds_bands = [[[1, 2], [3, 4]], [[5, 6], [7, 8]], [[10, 10], [10, 10]]] \<rparr>"

definition gaps :: dataset where
  "gaps = \<lparr> ds_bounds = (0, 0, 2, 1), ds_crs = ''EPSG:4326'', ds_width = 2, ds_height = 1,
            ds_count = 4, ds_dtypes = [''int16'', ''int16'', ''int16'', ''int16''],
            ds_nodata = Some 0, ds_transform = (1, 0, 0, 0, -1, 1),
            ds_bands = [[[7, 7]], [[8, 8]], [[10, 0]], [[0, 30]]] \<rparr>"

definition dict_of :: "dataset \<Rightarrow> data_dict" where
  "dict_of ds =
     \<lparr> dd_data = ds_bands ds,
       dd_metadata = \<lparr> md_bounds = ds_bounds ds, md_crs = ds_crs ds, md_width = ds_width ds,
                       md_height = ds_height ds, md_count = ds_count ds,
                       md_dtype = hd (ds_dtypes ds), md_nodata = Some (ds_nodata ds),
                       md_transform = ds_transform ds \<rparr> \<rparr>"

definition same_grid :: calc_transform where
  "same_grid src_crs dst_crs width height bnds = Inr ((1, 0, 0, 0, -1, 2), width, height)"

definition copy_band :: warp_reproject where
  "copy_band source destination src_transform src_crs dst_transform dst_crs = Inr source"

definition epsg_names :: "string \<Rightarrow> string option" where
  "epsg_names crs =
     (if crs = ''EPSG:4326'' \<or> crs = ''epsg:4326'' then Some ''EPSG:4326''
      else if crs = ''EPSG:3857'' \<or> crs = ''epsg:3857'' then Some ''EPSG:3857''
      else None)"

text \<open>
  Vector examples with boxes (minx, miny, maxx, maxy) as geometries, a point being a
  box without extent. \<open>box_buffer\<close> grows a box by a finite distance on every side and
  refuses any other distance.
\<close>

definition box_buffer :: "bounds \<Rightarrow> pyfloat \<Rightarrow> string + bounds" where
  "box_buffer g distance =
     (case distance of
        Finite d \<Rightarrow> (case g of (x0, y0, x1, y1) \<Rightarrow> Inr (x0 - d, y0 - d, x1 + d, y1 + d))
      | _ \<Rightarrow> Inl ''ValueError'')"

definition box_area :: "bounds \<Rightarrow> real option" where
  "box_area g = (case g of (x0, y0, x1, y1) \<Rightarrow> Some ((x1 - x0) * (y1 - y0)))"

definition points_layer :: "(bounds, string) geodataframe" where
  "points_layer = \<lparr> gdf_crs = Some ''EPSG:4326'', gdf_columns = [''name''],
                    gdf_rows = [\<lparr> geometry = (0, 0, 0, 0), attrs = ''station'' \<rparr>,
                                \<lparr> geometry = (5, 5, 5, 5), attrs = ''depot'' \<rparr>] \<rparr>"

definition square_layer :: "(bounds, string) geodataframe" where
  "square_layer = \<lparr> gdf_crs = Some ''EPSG:4326'', gdf_columns = [''name''],
                    gdf_rows = [\<lparr> geometry = (-1, -1, 1, 1), attrs = ''parcel'' \<rparr>] \<rparr>"

definition empty_layer :: "(bounds, string) geodataframe" where
  "empty_layer = \<lparr> gdf_crs = Some ''EPSG:4326'', gdf_columns = [''name''], gdf_rows = [] \<rparr>"

definition single_layer ::
  "string \<Rightarrow> (bounds, string) geodataframe \<Rightarrow> string \<Rightarrow> string + (bounds, string) geodataframe"
where
  "single_layer name gdf file_path =
     (if file_path = name then Inr gdf else Inl ''DataSourceError'')"

definition no_to_crs ::
  "(bounds, string) geodataframe \<Rightarrow> string \<Rightarrow> string + (bounds, string) geodataframe"
where
  "no_to_crs gdf crs = Inl ''CRSError''"

text \<open>
  Vector examples with shapely geometries: two stations, one on the boundary of the
  parcel (the square with corners (-1, -1) and (1, 1)) and one outside it. In these
  examples GEOS returns every geometry as it is, no predicate besides \<open>intersects\<close>
  is known, and the library lists the rows of a join in reverse.
\<close>

definition stations :: "(geom, string) geodataframe" where
  "stations = \<lparr> gdf_crs = Some ''EPSG:4326'', gdf_columns = [''name''],
                gdf_rows = [\<lparr> geometry = Point (1, 0), attrs = ''station'' \<rparr>,
                            \<lparr> geometry = Point (5, 5), attrs = ''depot'' \<rparr>] \<rparr>"

definition parcels :: "(geom, string) geodataframe" where
  "parcels = \<lparr> gdf_crs = Some ''EPSG:4326'', gdf_columns = [''owner''],
               gdf_rows = [\<lparr> geometry = Polygon [(-1, -1), (1, -1), (1, 1), (-1, 1), (-1, -1)] [],
                             attrs = ''parcel'' \<rparr>] \<rparr>"

definition parcels_mercator :: "(geom, string) geodataframe" where
  "parcels_mercator =
     \<lparr> gdf_crs = Some ''EPSG:3857'', gdf_columns = [''owner''],
       gdf_rows = [\<lparr> geometry = Polygon [(-1, -1), (1, -1), (1, 1), (-1, 1), (-1, -1)] [],
                     attrs = ''parcel'' \<rparr>] \<rparr>"

definition renamed_stations :: "(geom, string) geodataframe" where
  "renamed_stations =
     \<lparr> gdf_crs = Some ''EPSG:4326'', gdf_columns = [''index_right''],
       gdf_rows = [\<lparr> geometry = Point (1, 0), attrs = ''station'' \<rparr>,
                   \<lparr> geometry = Point (5, 5), attrs = ''depot'' \<rparr>] \<rparr>"

definition no_others :: "string \<Rightarrow> (geom \<Rightarrow> geom \<Rightarrow> bool) option" where
  "no_others name = None"


section \<open>Properties of the raster pipeline\<close>

lemma foldl_apply_operation:
  "foldl (apply_operation data) results operations =
     (if ''ndvi'' \<in> set operations \<and> 4 \<le> length data
      then results(''ndvi'' \<mapsto> ndvi_grid (data ! 3) (data ! 2))
      else results)"
  by (induction operations arbitrary: results) (auto simp: apply_operation_def Let_def)

lemma process_after_ingest:
  assumes "ingest_raster_data opn cdt rp ab file_path ''EPSG:4326'' = Inr dd"
  shows "process_satellite_imagery opn cdt rp ab file_path operations =
           Inr \<lparr> processed_data =
                   (if ''ndvi'' \<in> set operations \<and> 4 \<le> length (dd_data dd)
                    then [''ndvi'' \<mapsto> ndvi_grid (dd_data dd ! 3) (dd_data dd ! 2)]
                    else Map.empty),
                 pr_metadata = dd_metadata dd \<rparr>"
  using assms by (simp add: process_satellite_imagery_def foldl_apply_operation)

lemma ndvi_grid_nth:
  assumes "i < length nir" "i < length red" "j < length (nir ! i)" "j < length (red ! i)"
  shows "ndvi_grid nir red ! i ! j = ndvi_pixel (nir ! i ! j) (red ! i ! j)"
  using assms by (simp add: ndvi_grid_def)

lemma ingest_single_file:
  assumes "ds_crs ds = ''EPSG:4326''" and "ds_dtypes ds \<noteq> []"
  shows "ingest_raster_data (single_file name ds) cdt rp ab name ''EPSG:4326'' = Inr (dict_of ds)"
  using assms
  by (cases "ds_dtypes ds")
     (simp_all add: ingest_raster_data_def single_file_def first_dtype_def dict_of_def)

text \<open>
  C1. Let the ingested raster have four bands of 2x2 pixels, the red band (band 3,
  \<open>data[2]\<close>, as the source fixes it) constant 10 and the near-infrared band (band 4,
  \<open>data[3]\<close>) constant 30. Then \<open>process_satellite_imagery\<close> with \<open>'ndvi'\<close> among
  its operations returns, under the key \<open>'ndvi'\<close>, one 2x2 grid whose every pixel is
  \<open>(30 - 10) / (30 + 10 + 1e-8)\<close>, which lies within \<open>1e-9\<close> of 0.5. Bands 1 and 2
  are arbitrary.
\<close>

theorem ndvi_red10_nir30:
  assumes "ingest_raster_data opn cdt rp ab file_path ''EPSG:4326'' = Inr dd"
      and "dd_data dd = [band1, band2, [[10, 10], [10, 10]], [[30, 30], [30, 30]]]"
      and "''ndvi'' \<in> set operations"
  shows "\<exists>res. process_satellite_imagery opn cdt rp ab file_path operations = Inr res
           \<and> processed_data res ''ndvi'' =
               Some [[Finite ((30 - 10) / (30 + 10 + 1 / 10 ^ 8)),
                      Finite ((30 - 10) / (30 + 10 + 1 / 10 ^ 8))],
                     [Finite ((30 - 10) / (30 + 10 + 1 / 10 ^ 8)),
                      Finite ((30 - 10) / (30 + 10 + 1 / 10 ^ 8))]]
           \<and> \<bar>(30 - 10) / (30 + 10 + 1 / 10 ^ 8) - 1 / 2 :: real\<bar> < 1 / 10 ^ 9"
proof -
  have px: "ndvi_pixel 30 10 = Finite ((30 - 10) / (30 + 10 + 1 / 10 ^ 8))"
    by (simp add: ndvi_pixel_def np_true_divide_def)
  have grid: "ndvi_grid (dd_data dd ! 3) (dd_data dd ! 2) =
      [[ndvi_pixel 30 10, ndvi_pixel 30 10], [ndvi_pixel 30 10, ndvi_pixel 30 10]]"
    by (simp add: assms(2) ndvi_grid_def)
  have near: "\<bar>(30 - 10) / (30 + 10 + 1 / 10 ^ 8) - 1 / 2 :: real\<bar> < 1 / 10 ^ 9"
    by simp
  show ?thesis
    using process_after_ingest[OF assms(1), of operations] assms(2,3) grid near
    by (simp add: px)
qed

text \<open>The file \<open>scene.tif\<close> with the default operations is such an input.\<close>

theorem ndvi_red10_nir30_witness:
  "ingest_raster_data (single_file ''scene.tif'' scene) no_transform no_reproject edge_bounds
       ''scene.tif'' ''EPSG:4326'' = Inr (dict_of scene)
   \<and> dd_data (dict_of scene) =
       [[[1, 2], [3, 4]], [[5, 6], [7, 8]], [[10, 10], [10, 10]], [[30, 30], [30, 30]]]
   \<and> ''ndvi'' \<in> set [''ndvi'', ''clip'', ''resample'']
   \<and> (\<exists>res. process_satellite_imagery (single_file ''scene.tif'' scene) no_transform
                no_reproject edge_bounds ''scene.tif'' [''ndvi'', ''clip'', ''resample'']
              = Inr res
           \<and> processed_data res ''ndvi'' =
               Some [[Finite ((30 - 10) / (30 + 10 + 1 / 10 ^ 8)),
                      Finite ((30 - 10) / (30 + 10 + 1 / 10 ^ 8))],
                     [Finite ((30 - 10) / (30 + 10 + 1 / 10 ^ 8)),
                      Finite ((30 - 10) / (30 + 10 + 1 / 10 ^ 8))]]
           \<and> \<bar>(30 - 10) / (30 + 10 + 1 / 10 ^ 8) - 1 / 2 :: real\<bar> < 1 / 10 ^ 9)"
proof -
  have h1: "ingest_raster_data (single_file ''scene.tif'' scene) no_transform no_reproject
              edge_bounds ''scene.tif'' ''EPSG:4326'' = Inr (dict_of scene)"
    by (rule ingest_single_file) (simp_all add: scene_def)
  have h2: "dd_data (dict_of scene) =
       [[[1, 2], [3, 4]], [[5, 6], [7, 8]], [[10, 10], [10, 10]], [[30, 30], [30, 30]]]"
    by (simp add: dict_of_def scene_def)
  have h3: "''ndvi'' \<in> set [''ndvi'', ''clip'', ''resample'']"
    by simp
  from ndvi_red10_nir30[OF h1 h2 h3] h1 h2 h3 show ?thesis
    by blast
qed

text \<open>
  Against C2 as stated: \<open>rgb.tif\<close> holds three bands, and \<open>'ndvi'\<close> on it raises
  nothing. The call returns, and its result has no \<open>'ndvi'\<close> entry.
\<close>

theorem ndvi_three_bands_counterexample:
  "length (ds_bands rgb) = 3
   \<and> process_satellite_imagery (single_file ''rgb.tif'' rgb) no_transform no_reproject
         edge_bounds ''rgb.tif'' [''ndvi''] \<noteq> Inl InsufficientBands
   \<and> \<not> isl (process_satellite_imagery (single_file ''rgb.tif'' rgb) no_transform no_reproject
              edge_bounds ''rgb.tif'' [''ndvi''])
   \<and> processed_data (projr (process_satellite_imagery (single_file ''rgb.tif'' rgb)
         no_transform no_reproject edge_bounds ''rgb.tif'' [''ndvi''])) ''ndvi'' = None"
proof -
  have "ingest_raster_data (single_file ''rgb.tif'' rgb) no_transform no_reproject
          edge_bounds ''rgb.tif'' ''EPSG:4326'' = Inr (dict_of rgb)"
    by (rule ingest_single_file) (simp_all add: rgb_def)
  from process_after_ingest[OF this, of "[''ndvi'']"] show ?thesis
    by (simp add: dict_of_def rgb_def)
qed

text \<open>
  C2, amended. When the ingested raster holds fewer than four bands, the guard
  \<open>data.shape[0] >= 4\<close> skips \<open>'ndvi'\<close>: for every list of operations
  \<open>process_satellite_imagery\<close> returns normally, with an empty \<open>processed_data\<close> and
  the metadata of the ingestion. No error is signalled.
\<close>

theorem ndvi_skipped_below_four_bands:
  assumes "ingest_raster_data opn cdt rp ab file_path ''EPSG:4326'' = Inr dd"
      and "length (dd_data dd) < 4"
  shows "process_satellite_imagery opn cdt rp ab file_path operations =
           Inr \<lparr> processed_data = Map.empty, pr_metadata = dd_metadata dd \<rparr>"
  using process_after_ingest[OF assms(1), of operations] assms(2) by simp

theorem ndvi_skipped_below_four_bands_witness:
  "ingest_raster_data (single_file ''rgb.tif'' rgb) no_transform no_reproject edge_bounds
       ''rgb.tif'' ''EPSG:4326'' = Inr (dict_of rgb)
   \<and> length (dd_data (dict_of rgb)) < 4
   \<and> process_satellite_imagery (single_file ''rgb.tif'' rgb) no_transform no_reproject
         edge_bounds ''rgb.tif'' [''ndvi'', ''clip'', ''resample'']
       = Inr \<lparr> processed_data = Map.empty, pr_metadata = dd_metadata (dict_of rgb) \<rparr>"
proof -
  have h1: "ingest_raster_data (single_file ''rgb.tif'' rgb) no_transform no_reproject
              edge_bounds ''rgb.tif'' ''EPSG:4326'' = Inr (dict_of rgb)"
    by (rule ingest_single_file) (simp_all add: rgb_def)
  have h2: "length (dd_data (dict_of rgb)) < 4"
    by (simp add: dict_of_def rgb_def)
  from ndvi_skipped_below_four_bands[OF h1 h2] h1 h2 show ?thesis
    by blast
qed

text \<open>
  Against C3 as stated: \<open>gaps.tif\<close> declares the nodata value 0. At pixel (0, 0) its
  near-infrared band holds 0 and its red band 10; at pixel (0, 1) the red band holds 0
  and the near-infrared band 30. The result holds the arithmetic values
  \<open>-10 / (10 + 1e-8)\<close> and \<open>30 / (30 + 1e-8)\<close> there, neither of which is 0.
\<close>

theorem ndvi_nodata_counterexample:
  "md_nodata (pr_metadata (projr (process_satellite_imagery (single_file ''gaps.tif'' gaps)
       no_transform no_reproject edge_bounds ''gaps.tif'' [''ndvi'']))) = Some (Some 0)
   \<and> ds_bands gaps ! 3 ! 0 ! 0 = 0
   \<and> ds_bands gaps ! 2 ! 0 ! 1 = 0
   \<and> processed_data (projr (process_satellite_imagery (single_file ''gaps.tif'' gaps)
         no_transform no_reproject edge_bounds ''gaps.tif'' [''ndvi''])) ''ndvi''
       = Some [[Finite ((0 - 10) / (0 + 10 + 1 / 10 ^ 8)),
                Finite ((30 - 0) / (30 + 0 + 1 / 10 ^ 8))]]
   \<and> Finite ((0 - 10) / (0 + 10 + 1 / 10 ^ 8)) \<noteq> Finite 0
   \<and> Finite ((30 - 0) / (30 + 0 + 1 / 10 ^ 8)) \<noteq> Finite 0"
proof -
  have "ingest_raster_data (single_file ''gaps.tif'' gaps) no_transform no_reproject
          edge_bounds ''gaps.tif'' ''EPSG:4326'' = Inr (dict_of gaps)"
    by (rule ingest_single_file) (simp_all add: gaps_def)
  from process_after_ingest[OF this, of "[''ndvi'']"] show ?thesis
    by (simp add: dict_of_def gaps_def ndvi_grid_def ndvi_pixel_def np_true_divide_def)
qed

text \<open>
  C3, amended. The normalized difference never consults the nodata value. On a raster
  of at least four bands, whatever nodata value (or none) it declares, the result at
  every pixel position (i, j) of the near-infrared and the red band is the arithmetic
  value of \<open>(nir - red) / (nir + red + 1e-8)\<close> on the two pixels, also where one of
  them equals the nodata value.
\<close>

theorem ndvi_arithmetic_at_every_pixel:
  assumes "ingest_raster_data opn cdt rp ab file_path ''EPSG:4326'' = Inr dd"
      and "4 \<le> length (dd_data dd)"
      and "''ndvi'' \<in> set operations"
      and "i < length (dd_data dd ! 3)" and "i < length (dd_data dd ! 2)"
      and "j < length (dd_data dd ! 3 ! i)" and "j < length (dd_data dd ! 2 ! i)"
  shows "\<exists>res g. process_satellite_imagery opn cdt rp ab file_path operations = Inr res
           \<and> processed_data res ''ndvi'' = Some g
           \<and> g ! i ! j =
               np_true_divide (dd_data dd ! 3 ! i ! j - dd_data dd ! 2 ! i ! j)
                 (dd_data dd ! 3 ! i ! j + dd_data dd ! 2 ! i ! j + 1 / 10 ^ 8)"
  using process_after_ingest[OF assms(1), of operations] assms(2,3)
        ndvi_grid_nth[OF assms(4-7)]
  by (simp add: ndvi_pixel_def)

theorem ndvi_arithmetic_at_every_pixel_witness:
  "ingest_raster_data (single_file ''gaps.tif'' gaps) no_transform no_reproject edge_bounds
       ''gaps.tif'' ''EPSG:4326'' = Inr (dict_of gaps)
   \<and> 4 \<le> length (dd_data (dict_of gaps))
   \<and> ''ndvi'' \<in> set [''ndvi'']
   \<and> 0 < length (dd_data (dict_of gaps) ! 3) \<and> 0 < length (dd_data (dict_of gaps) ! 2)
   \<and> 0 < length (dd_data (dict_of gaps) ! 3 ! 0) \<and> 0 < length (dd_data (dict_of gaps) ! 2 ! 0)
   \<and> md_nodata (dd_metadata (dict_of gaps)) = Some (Some (dd_data (dict_of gaps) ! 3 ! 0 ! 0))
   \<and> (\<exists>res g. process_satellite_imagery (single_file ''gaps.tif'' gaps) no_transform
                  no_reproject edge_bounds ''gaps.tif'' [''ndvi''] = Inr res
           \<and> processed_data res ''ndvi'' = Some g
           \<and> g ! 0 ! 0 =
               np_true_divide
                 (dd_data (dict_of gaps) ! 3 ! 0 ! 0 - dd_data (dict_of gaps) ! 2 ! 0 ! 0)
                 (dd_data (dict_of gaps) ! 3 ! 0 ! 0 + dd_data (dict_of gaps) ! 2 ! 0 ! 0
                    + 1 / 10 ^ 8))"
proof -
  have h1: "ingest_raster_data (single_file ''gaps.tif'' gaps) no_transform no_reproject
              edge_bounds ''gaps.tif'' ''EPSG:4326'' = Inr (dict_of gaps)"
    by (rule ingest_single_file) (simp_all add: gaps_def)
  have h2: "4 \<le> length (dd_data (dict_of gaps))"
    by (simp add: dict_of_def gaps_def)
  have h3: "''ndvi'' \<in> set [''ndvi'']"
    by simp
  have h4: "0 < length (dd_data (dict_of gaps) ! 3)"
    and h5: "0 < length (dd_data (dict_of gaps) ! 2)"
    and h6: "0 < length (dd_data (dict_of gaps) ! 3 ! 0)"
    and h7: "0 < length (dd_data (dict_of gaps) ! 2 ! 0)"
    by (simp_all add: dict_of_def gaps_def)
  have h8: "md_nodata (dd_metadata (dict_of gaps))
              = Some (Some (dd_data (dict_of gaps) ! 3 ! 0 ! 0))"
    by (simp add: dict_of_def gaps_def)
  from ndvi_arithmetic_at_every_pixel[OF h1 h2 h3 h4 h5 h6 h7] h1 h2 h3 h4 h5 h6 h7 h8
  show ?thesis
    by blast
qed

lemma ingest_identity_same_spelling:
  assumes "opn file_path = Inr src" and "ds_dtypes src \<noteq> []" and "ds_crs src = target_crs"
      and "read_file vector_path = Inr gdf" and "gdf_crs gdf = Some name"
      and "from_user_input crs = Some name"
  shows "ingest_raster_data opn cdt rp ab file_path target_crs =
           Inr \<lparr> dd_data = ds_bands src,
                 dd_metadata = \<lparr> md_bounds = ds_bounds src,
                                 md_crs = ds_crs src,
                                 md_width = ds_width src,
                                 md_height = ds_height src,
                                 md_count = ds_count src,
                                 md_dtype = hd (ds_dtypes src),
                                 md_nodata = Some (ds_nodata src),
                                 md_transform = ds_transform src \<rparr> \<rparr>
         \<and> ingest_vector_data from_user_input read_file to_crs vector_path crs = Inr gdf"
  using assms
  by (cases "ds_dtypes src")
     (simp_all add: ingest_raster_data_def ingest_vector_data_def first_dtype_def
        crs_differs_def)

lemma ingest_raster_warps:
  assumes "opn file_path = Inr src" and "ds_crs src \<noteq> target_crs"
  shows "ingest_raster_data opn cdt rp ab file_path target_crs \<noteq> Inr (dict_of src)"
proof (cases "ds_dtypes src")
  case Nil
  with assms show ?thesis
    by (simp add: ingest_raster_data_def first_dtype_def)
next
  case (Cons dt dts)
  have "md_nodata (dd_metadata dd) = None"
    if "ingest_raster_data opn cdt rp ab file_path target_crs = Inr dd" for dd
    using that assms Cons
    by (auto simp: ingest_raster_data_def first_dtype_def reproject_raster_def Let_def
          split: sum.splits prod.splits)
  moreover have "md_nodata (dd_metadata (dict_of src)) \<noteq> None"
    by (simp add: dict_of_def)
  ultimately show ?thesis
    by metis
qed

text \<open>
  C4. The claim fails on the raster path, which decides whether to reproject by
  comparing strings (\<open>str(src.crs) != target_crs\<close>), while the vector path compares
  the two coordinate systems. \<open>scene.tif\<close> is in EPSG:4326, and \<open>epsg:4326\<close> names
  that system. Requested as \<open>epsg:4326\<close>,
  \<^item> the raster is warped whatever the warping functions are, and the result is never
    the array and metadata of the file: the call raises, or returns metadata without
    \<open>'nodata'\<close>;
  \<^item> even with a warp that reproduces the grid exactly, the metadata come back without
    \<open>'nodata'\<close> and with the CRS in the caller's spelling;
  \<^item> the vector layer in EPSG:4326 is returned as it was read.
  Requested as \<open>EPSG:4326\<close>, the raster is returned as it was read.
\<close>

theorem ingest_raster_other_spelling_is_warped:
  "epsg_names ''epsg:4326'' = Some (ds_crs scene)
   \<and> ingest_raster_data (single_file ''scene.tif'' scene) cdt rp ab ''scene.tif'' ''epsg:4326''
       \<noteq> Inr (dict_of scene)
   \<and> ingest_raster_data (single_file ''scene.tif'' scene) same_grid copy_band edge_bounds
         ''scene.tif'' ''epsg:4326''
       = Inr \<lparr> dd_data = ds_bands scene,
               dd_metadata = \<lparr> md_bounds = ds_bounds scene,
                               md_crs = ''epsg:4326'',
                               md_width = ds_width scene,
                               md_height = ds_height scene,
                               md_count = ds_count scene,
                               md_dtype = hd (ds_dtypes scene),
                               md_nodata = None,
                               md_transform = ds_transform scene \<rparr> \<rparr>
   \<and> ingest_vector_data epsg_names (single_layer ''parcels.geojson'' square_layer) no_to_crs
         ''parcels.geojson'' ''epsg:4326'' = Inr square_layer
   \<and> ingest_raster_data (single_file ''scene.tif'' scene) cdt rp ab ''scene.tif'' ''EPSG:4326''
       = Inr (dict_of scene)"
proof -
  have opened: "single_file ''scene.tif'' scene ''scene.tif'' = Inr scene"
    by (simp add: single_file_def)
  have other: "ds_crs scene \<noteq> ''epsg:4326''"
    by (simp add: scene_def)
  have a: "epsg_names ''epsg:4326'' = Some (ds_crs scene)"
    by (simp add: epsg_names_def scene_def)
  have b: "ingest_raster_data (single_file ''scene.tif'' scene) cdt rp ab ''scene.tif''
             ''epsg:4326'' \<noteq> Inr (dict_of scene)"
    using opened other by (rule ingest_raster_warps)
  have c: "ingest_raster_data (single_file ''scene.tif'' scene) same_grid copy_band edge_bounds
         ''scene.tif'' ''epsg:4326''
       = Inr \<lparr> dd_data = ds_bands scene,
               dd_metadata = \<lparr> md_bounds = ds_bounds scene,
                               md_crs = ''epsg:4326'',
                               md_width = ds_width scene,
                               md_height = ds_height scene,
                               md_count = ds_count scene,
                               md_dtype = hd (ds_dtypes scene),
                               md_nodata = None,
                               md_transform = ds_transform scene \<rparr> \<rparr>"
    by (simp add: ingest_raster_data_def reproject_raster_def first_dtype_def single_file_def
          same_grid_def copy_band_def edge_bounds_def scene_def)
  have d: "ingest_vector_data epsg_names (single_layer ''parcels.geojson'' square_layer)
             no_to_crs ''parcels.geojson'' ''epsg:4326'' = Inr square_layer"
    by (simp add: ingest_vector_data_def crs_differs_def single_layer_def square_layer_def
          epsg_names_def)
  have e: "ingest_raster_data (single_file ''scene.tif'' scene) cdt rp ab ''scene.tif''
             ''EPSG:4326'' = Inr (dict_of scene)"
    by (rule ingest_single_file) (simp_all add: scene_def)
  from a b c d e show ?thesis
    by blast
qed

section \<open>Properties of the vector pipeline\<close>

subsection \<open>Geometries\<close>

lemma intersects_Point: "intersects (Point q) h = covers h q"
  by (auto simp: intersects_def)

lemma intersects_Point_right: "intersects g (Point q) = covers g q"
  unfolding intersects_def by (cases q) auto

lemma covers_empty_polygon: "\<not> covers (Polygon [] []) p"
  by (simp add: in_polygon_def on_ring_def inside_ring_def ring_edges_def)

lemma square_in_polygon:
  "in_polygon [(-1, -1), (1, -1), (1, 1), (-1, 1), (-1, -1)] [] (1, 0)"
  "on_ring [(-1, -1), (1, -1), (1, 1), (-1, 1), (-1, -1)] (1, 0)"
  "\<not> in_polygon [(-1, -1), (1, -1), (1, 1), (-1, 1), (-1, -1)] [] (5, 5)"
  by (simp_all add: in_polygon_def on_ring_def inside_ring_def ring_edges_def on_segment_def
        crosses_ray_def)

subsection \<open>Spatial join\<close>

lemma distinct_matching_pairs: "distinct (matching_pairs p ls rs)"
  by (simp add: matching_pairs_def distinct_product)

lemma set_matching_pairs:
  "set (matching_pairs p ls rs) =
     {(i, j). i < length ls \<and> j < length rs \<and> p (geometry (ls ! i)) (geometry (rs ! j))}"
  by (auto simp: matching_pairs_def)

lemma length_matching_pairs: "length (matching_pairs p ls rs) \<le> length ls * length rs"
proof -
  have "length (matching_pairs p ls rs) \<le> length (List.product [0..<length ls] [0..<length rs])"
    unfolding matching_pairs_def by (rule length_filter_le)
  then show ?thesis by simp
qed

lemma arranged_count:
  assumes "mset ys = mset xs"
  shows "length (filter Q (map f ys)) = length (filter Q (map f xs))"
proof -
  have "mset (filter Q (map f ys)) = mset (filter Q (map f xs))"
    using assms by (metis mset_filter mset_map)
  then show ?thesis
    by (rule mset_eq_length)
qed

lemma count_pair:
  assumes "(i, j) \<in> set (matching_pairs p ls rs)"
  shows "length (filter (\<lambda>row. map_option fst (j_left row) = Some i
                              \<and> map_option fst (j_right row) = Some j)
                 (map (join_row ''inner'' ls rs)
                    (map (\<lambda>(i, j). Both i j) (matching_pairs p ls rs)))) = 1"
proof -
  have "filter (\<lambda>row. map_option fst (j_left row) = Some i \<and> map_option fst (j_right row) = Some j)
          (map (join_row ''inner'' ls rs) (map (\<lambda>(i, j). Both i j) (matching_pairs p ls rs)))
        = map (join_row ''inner'' ls rs)
            (map (\<lambda>(i, j). Both i j) (filter (\<lambda>ij. ij = (i, j)) (matching_pairs p ls rs)))"
    by (simp add: filter_map comp_def case_prod_unfold prod_eq_iff)
  moreover have "length (filter (\<lambda>ij. ij = (i, j)) (matching_pairs p ls rs)) = 1"
    using assms distinct_matching_pairs[of p ls rs]
    by (simp add: distinct_length_filter)
  ultimately show ?thesis by simp
qed

lemma spatial_join_inner_eq:
  assumes "\<not> reserved_names (gdf_columns gdf1)" and "\<not> reserved_names (gdf_columns gdf2)"
  shows "spatial_join other arrange gdf1 gdf2 ''inner'' =
           Inr \<lparr> jf_crs = gdf_crs gdf1,
                 jf_rows = map (join_row ''inner'' (gdf_rows gdf1) (gdf_rows gdf2))
                             (arrange (map (\<lambda>(i, j). Both i j)
                                (matching_pairs intersects (gdf_rows gdf1) (gdf_rows gdf2)))) \<rparr>"
  using assms
  by (simp add: spatial_join_def sjoin_def predicate_relation_def join_matches_def)

lemma spatial_join_reserved:
  assumes "reserved_names (gdf_columns gdf1) \<or> reserved_names (gdf_columns gdf2)"
  shows "spatial_join other arrange gdf1 gdf2 how = Inl (LibraryError ''ValueError'')"
  using assms by (simp add: spatial_join_def sjoin_def)

lemma stations_parcels_pairs:
  "matching_pairs intersects (gdf_rows stations) (gdf_rows parcels) = [(0, 0)]"
  "matching_pairs intersects (gdf_rows stations) (gdf_rows parcels_mercator) = [(0, 0)]"
  by (simp_all add: matching_pairs_def stations_def parcels_def parcels_mercator_def
        intersects_Point square_in_polygon upt_rec)

text \<open>
  Against C5 as stated: the two frames have the same CRS and the first station lies on
  the parcel, but the stations' attribute column is named \<open>index_right\<close>. The join
  emits no row for the pair; it raises the library's ValueError.
\<close>

theorem spatial_join_reserved_column_counterexample:
  "gdf_crs renamed_stations = gdf_crs parcels
   \<and> intersects (geometry (gdf_rows renamed_stations ! 0)) (geometry (gdf_rows parcels ! 0))
   \<and> spatial_join no_others rev renamed_stations parcels ''inner''
       = Inl (LibraryError ''ValueError'')"
  by (simp add: spatial_join_def sjoin_def reserved_names_def renamed_stations_def parcels_def
        intersects_Point square_in_polygon)

text \<open>
  C5, amended. Let the library list the rows of a join in some order of its own. When
  a column of either frame is named \<open>index_left\<close> or \<open>index_right\<close>,
  \<open>spatial_join\<close> with \<open>how = 'inner'\<close> raises the library's ValueError. Otherwise
  it returns a frame in which
  \<^item> every row stems from a left row i and a right row j, carries the geometry of the
    left row and the attributes of both, and that geometry has a point in common with
    the geometry of the right row, points of the boundaries included;
  \<^item> every pair (i, j) of intersecting rows accounts for exactly one row;
  \<^item> a left row that intersects no right row appears nowhere;
  \<^item> the number of rows is at most the product of the two row counts.
  This holds whether or not the CRS of the two frames are equal.
\<close>

theorem spatial_join_inner_intersecting_pairs:
  assumes "\<forall>ms. mset (arrange ms) = mset ms"
  shows "(reserved_names (gdf_columns gdf1) \<or> reserved_names (gdf_columns gdf2) \<longrightarrow>
            spatial_join other arrange gdf1 gdf2 ''inner'' = Inl (LibraryError ''ValueError''))
     \<and> (\<not> reserved_names (gdf_columns gdf1) \<and> \<not> reserved_names (gdf_columns gdf2) \<longrightarrow>
         (\<exists>res. spatial_join other arrange gdf1 gdf2 ''inner'' = Inr res
     \<and> (\<forall>row \<in> set (jf_rows res). \<exists>i j.
            i < length (gdf_rows gdf1) \<and> j < length (gdf_rows gdf2)
          \<and> j_left row = Some (i, attrs (gdf_rows gdf1 ! i))
          \<and> j_right row = Some (j, attrs (gdf_rows gdf2 ! j))
          \<and> j_geometry row = geometry (gdf_rows gdf1 ! i)
          \<and> (\<exists>p. covers (j_geometry row) p \<and> covers (geometry (gdf_rows gdf2 ! j)) p))
     \<and> (\<forall>i < length (gdf_rows gdf1). \<forall>j < length (gdf_rows gdf2).
            intersects (geometry (gdf_rows gdf1 ! i)) (geometry (gdf_rows gdf2 ! j)) \<longrightarrow>
            length (filter (\<lambda>row. map_option fst (j_left row) = Some i
                                 \<and> map_option fst (j_right row) = Some j)
                      (jf_rows res)) = 1)
     \<and> (\<forall>i < length (gdf_rows gdf1).
            (\<forall>j < length (gdf_rows gdf2).
               \<not> intersects (geometry (gdf_rows gdf1 ! i)) (geometry (gdf_rows gdf2 ! j))) \<longrightarrow>
            (\<forall>row \<in> set (jf_rows res). map_option fst (j_left row) \<noteq> Some i))
     \<and> length (jf_rows res) \<le> length (gdf_rows gdf1) * length (gdf_rows gdf2)))"
proof (intro conjI impI)
  assume "reserved_names (gdf_columns gdf1) \<or> reserved_names (gdf_columns gdf2)"
  then show "spatial_join other arrange gdf1 gdf2 ''inner'' = Inl (LibraryError ''ValueError'')"
    by (rule spatial_join_reserved)
next
  assume free: "\<not> reserved_names (gdf_columns gdf1) \<and> \<not> reserved_names (gdf_columns gdf2)"
  let ?ls = "gdf_rows gdf1" and ?rs = "gdf_rows gdf2"
  let ?pairs = "matching_pairs intersects ?ls ?rs"
  let ?ms = "map (\<lambda>(i, j). Both i j) ?pairs"
  let ?rows = "map (join_row ''inner'' ?ls ?rs) (arrange ?ms)"
  have perm: "mset (arrange ?ms) = mset ?ms"
    using assms by blast
  have rows_set: "set ?rows = join_row ''inner'' ?ls ?rs ` (\<lambda>(i, j). Both i j) ` set ?pairs"
    using mset_eq_setD[OF perm] by simp
  have only: "\<forall>row \<in> set ?rows. \<exists>i j.
            i < length ?ls \<and> j < length ?rs
          \<and> j_left row = Some (i, attrs (?ls ! i))
          \<and> j_right row = Some (j, attrs (?rs ! j))
          \<and> j_geometry row = geometry (?ls ! i)
          \<and> (\<exists>p. covers (j_geometry row) p \<and> covers (geometry (?rs ! j)) p)"
    unfolding rows_set by (auto simp: set_matching_pairs intersects_def)
  have once: "\<forall>i < length ?ls. \<forall>j < length ?rs.
            intersects (geometry (?ls ! i)) (geometry (?rs ! j)) \<longrightarrow>
            length (filter (\<lambda>row. map_option fst (j_left row) = Some i
                                 \<and> map_option fst (j_right row) = Some j) ?rows) = 1"
  proof (intro allI impI)
    fix i j
    assume "i < length ?ls" and "j < length ?rs"
      and "intersects (geometry (?ls ! i)) (geometry (?rs ! j))"
    then have "(i, j) \<in> set ?pairs"
      by (simp add: set_matching_pairs)
    from count_pair[OF this]
    show "length (filter (\<lambda>row. map_option fst (j_left row) = Some i
                                 \<and> map_option fst (j_right row) = Some j) ?rows) = 1"
      by (simp only: arranged_count[OF perm])
  qed
  have dropped: "\<forall>i < length ?ls.
            (\<forall>j < length ?rs. \<not> intersects (geometry (?ls ! i)) (geometry (?rs ! j))) \<longrightarrow>
            (\<forall>row \<in> set ?rows. map_option fst (j_left row) \<noteq> Some i)"
    unfolding rows_set by (auto simp: set_matching_pairs)
  have bound: "length ?rows \<le> length ?ls * length ?rs"
    using mset_eq_length[OF perm] length_matching_pairs[of intersects ?ls ?rs] by simp
  show "\<exists>res. spatial_join other arrange gdf1 gdf2 ''inner'' = Inr res
     \<and> (\<forall>row \<in> set (jf_rows res). \<exists>i j.
            i < length (gdf_rows gdf1) \<and> j < length (gdf_rows gdf2)
          \<and> j_left row = Some (i, attrs (gdf_rows gdf1 ! i))
          \<and> j_right row = Some (j, attrs (gdf_rows gdf2 ! j))
          \<and> j_geometry row = geometry (gdf_rows gdf1 ! i)
          \<and> (\<exists>p. covers (j_geometry row) p \<and> covers (geometry (gdf_rows gdf2 ! j)) p))
     \<and> (\<forall>i < length (gdf_rows gdf1). \<forall>j < length (gdf_rows gdf2).
            intersects (geometry (gdf_rows gdf1 ! i)) (geometry (gdf_rows gdf2 ! j)) \<longrightarrow>
            length (filter (\<lambda>row. map_option fst (j_left row) = Some i
                                 \<and> map_option fst (j_right row) = Some j)
                      (jf_rows res)) = 1)
     \<and> (\<forall>i < length (gdf_rows gdf1).
            (\<forall>j < length (gdf_rows gdf2).
               \<not> intersects (geometry (gdf_rows gdf1 ! i)) (geometry (gdf_rows gdf2 ! j))) \<longrightarrow>
            (\<forall>row \<in> set (jf_rows res). map_option fst (j_left row) \<noteq> Some i))
     \<and> length (jf_rows res) \<le> length (gdf_rows gdf1) * length (gdf_rows gdf2)"
    using only once dropped bound free
    by (simp add: spatial_join_inner_eq)
qed

text \<open>
  Two stations against one parcel, with the rows listed in reverse: the station at
  (1, 0) lies on the boundary of the parcel, the depot at (5, 5) outside. The join has
  one row, for the pair (0, 0), and none for the depot. With the stations' column
  named \<open>index_right\<close> it raises.
\<close>

theorem spatial_join_inner_intersecting_pairs_witness:
  "(\<forall>ms :: match list. mset (rev ms) = mset ms)
   \<and> \<not> reserved_names (gdf_columns stations) \<and> \<not> reserved_names (gdf_columns parcels)
   \<and> reserved_names (gdf_columns renamed_stations)
   \<and> on_ring [(-1, -1), (1, -1), (1, 1), (-1, 1), (-1, -1)] (1, 0)
   \<and> intersects (geometry (gdf_rows stations ! 0)) (geometry (gdf_rows parcels ! 0))
   \<and> \<not> intersects (geometry (gdf_rows stations ! 1)) (geometry (gdf_rows parcels ! 0))
   \<and> length (filter (\<lambda>row. map_option fst (j_left row) = Some 0
                          \<and> map_option fst (j_right row) = Some 0)
               (jf_rows (projr (spatial_join no_others rev stations parcels ''inner''))))
       = 1
   \<and> length (filter (\<lambda>row. map_option fst (j_left row) = Some 1)
               (jf_rows (projr (spatial_join no_others rev stations parcels ''inner''))))
       = 0
   \<and> length (jf_rows (projr (spatial_join no_others rev stations parcels ''inner''))) \<le> 2 * 1
   \<and> spatial_join no_others rev renamed_stations parcels ''inner''
       = Inl (LibraryError ''ValueError'')"
proof -
  have perm: "\<forall>ms :: match list. mset (rev ms) = mset ms"
    by simp
  have free: "\<not> reserved_names (gdf_columns stations) \<and> \<not> reserved_names (gdf_columns parcels)"
    by (simp add: reserved_names_def stations_def parcels_def)
  have taken: "reserved_names (gdf_columns renamed_stations)"
    by (simp add: reserved_names_def renamed_stations_def)
  have n1: "length (gdf_rows stations) = 2" and n2: "length (gdf_rows parcels) = 1"
    by (simp_all add: stations_def parcels_def)
  have hit: "intersects (geometry (gdf_rows stations ! 0)) (geometry (gdf_rows parcels ! 0))"
    by (simp add: stations_def parcels_def intersects_Point square_in_polygon)
  have miss: "\<not> intersects (geometry (gdf_rows stations ! 1)) (geometry (gdf_rows parcels ! 0))"
    by (simp add: stations_def parcels_def intersects_Point square_in_polygon)
  note join = spatial_join_inner_intersecting_pairs[OF perm, of _ _ no_others]
  from join[of stations parcels] free
  obtain res where res: "spatial_join no_others rev stations parcels ''inner'' = Inr res"
    and once: "\<forall>i < length (gdf_rows stations). \<forall>j < length (gdf_rows parcels).
            intersects (geometry (gdf_rows stations ! i)) (geometry (gdf_rows parcels ! j)) \<longrightarrow>
            length (filter (\<lambda>row. map_option fst (j_left row) = Some i
                                 \<and> map_option fst (j_right row) = Some j)
                      (jf_rows res)) = 1"
    and dropped: "\<forall>i < length (gdf_rows stations).
            (\<forall>j < length (gdf_rows parcels).
               \<not> intersects (geometry (gdf_rows stations ! i))
                   (geometry (gdf_rows parcels ! j))) \<longrightarrow>
            (\<forall>row \<in> set (jf_rows res). map_option fst (j_left row) \<noteq> Some i)"
    and bound: "length (jf_rows res) \<le> length (gdf_rows stations) * length (gdf_rows parcels)"
    by blast
  have c1: "length (filter (\<lambda>row. map_option fst (j_left row) = Some 0
                                 \<and> map_option fst (j_right row) = Some 0)
                      (jf_rows res)) = 1"
    using once hit n1 n2 by simp
  have "\<forall>row \<in> set (jf_rows res). map_option fst (j_left row) \<noteq> Some 1"
    using dropped miss n1 n2 by simp
  then have c2: "length (filter (\<lambda>row. map_option fst (j_left row) = Some 1) (jf_rows res)) = 0"
    by (simp add: filter_empty_conv)
  have c3: "spatial_join no_others rev renamed_stations parcels ''inner''
              = Inl (LibraryError ''ValueError'')"
    using join[of renamed_stations parcels] taken by blast
  show ?thesis
    using perm free taken square_in_polygon(2) hit miss c1 c2 c3 bound n1 n2
    by (simp add: res)
qed

text \<open>
  Against C6 as stated: the stations are in EPSG:4326, the parcel in EPSG:3857. The
  join does not fail; it returns the row for the station on the parcel's boundary,
  computed on the coordinates as they stand.
\<close>

theorem spatial_join_crs_mismatch_counterexample:
  "gdf_crs stations \<noteq> gdf_crs parcels_mercator
   \<and> spatial_join no_others rev stations parcels_mercator ''inner'' \<noteq> Inl CrsMismatch
   \<and> spatial_join no_others rev stations parcels_mercator ''inner''
       = Inr \<lparr> jf_crs = Some ''EPSG:4326'',
               jf_rows = [\<lparr> j_geometry = Point (1, 0),
                            j_left = Some (0, ''station''),
                            j_right = Some (0, ''parcel'') \<rparr>] \<rparr>"
proof -
  have free: "\<not> reserved_names (gdf_columns stations)"
             "\<not> reserved_names (gdf_columns parcels_mercator)"
    by (simp_all add: reserved_names_def stations_def parcels_mercator_def)
  show ?thesis
    by (simp add: spatial_join_inner_eq[OF free] stations_parcels_pairs)
       (simp add: stations_def parcels_mercator_def)
qed

text \<open>
  C6, amended. \<open>spatial_join\<close> neither checks nor changes a CRS. It never fails with
  \<open>CrsMismatch\<close>; the rows it returns (or the error it raises) are the same whatever
  CRS identifiers the two frames carry; and for a join mode the library accepts and
  frames without a column named \<open>index_left\<close> or \<open>index_right\<close> it returns a
  frame, also when the two CRS differ.
\<close>

theorem spatial_join_ignores_crs:
  "spatial_join other arrange gdf1 gdf2 how \<noteq> Inl CrsMismatch
   \<and> map_sum id jf_rows
         (spatial_join other arrange (gdf1\<lparr> gdf_crs := c1 \<rparr>) (gdf2\<lparr> gdf_crs := c2 \<rparr>) how)
       = map_sum id jf_rows (spatial_join other arrange gdf1 gdf2 how)
   \<and> (how \<in> {''left'', ''right'', ''inner''}
        \<and> \<not> reserved_names (gdf_columns gdf1) \<and> \<not> reserved_names (gdf_columns gdf2)
        \<longrightarrow> (\<exists>res. spatial_join other arrange gdf1 gdf2 how = Inr res))"
  by (auto simp: spatial_join_def sjoin_def predicate_relation_def split: option.splits)

theorem spatial_join_ignores_crs_witness:
  "gdf_crs stations \<noteq> gdf_crs parcels_mercator
   \<and> ''inner'' \<in> {''left'', ''right'', ''inner''}
   \<and> \<not> reserved_names (gdf_columns stations)
   \<and> \<not> reserved_names (gdf_columns parcels_mercator)
   \<and> spatial_join no_others rev stations parcels_mercator ''inner'' \<noteq> Inl CrsMismatch
   \<and> map_sum id jf_rows
         (spatial_join no_others rev (stations\<lparr> gdf_crs := Some ''EPSG:3857'' \<rparr>)
            (parcels_mercator\<lparr> gdf_crs := Some ''EPSG:3857'' \<rparr>) ''inner'')
       = map_sum id jf_rows (spatial_join no_others rev stations parcels_mercator ''inner'')
   \<and> (\<exists>res. spatial_join no_others rev stations parcels_mercator ''inner'' = Inr res)"
proof -
  have h1: "gdf_crs stations \<noteq> gdf_crs parcels_mercator"
    by (simp add: stations_def parcels_mercator_def)
  have h2: "''inner'' \<in> {''left'', ''right'', ''inner''}"
    by simp
  have h3: "\<not> reserved_names (gdf_columns stations)"
    and h4: "\<not> reserved_names (gdf_columns parcels_mercator)"
    by (simp_all add: reserved_names_def stations_def parcels_mercator_def)
  from spatial_join_ignores_crs[of no_others rev stations parcels_mercator "''inner''"
         "Some ''EPSG:3857''" "Some ''EPSG:3857''"] h1 h2 h3 h4
  show ?thesis
    by blast
qed

subsection \<open>Buffer analysis\<close>


lemma series_buffer_Inl:
  "series_buffer buf gs d = Inl e \<Longrightarrow> \<exists>g \<in> set gs. buf g d = Inl e"
  by (induction gs) (auto split: sum.splits)

lemma series_buffer_Inr:
  "series_buffer buf gs d = Inr gs' \<Longrightarrow>
     length gs' = length gs \<and> (\<forall>i < length gs. buf (gs ! i) d = Inr (gs' ! i))"
proof (induction gs arbitrary: gs')
  case Nil
  then show ?case by simp
next
  case (Cons g gs)
  then show ?case
    by (auto split: sum.splits simp: nth_Cons split: nat.splits)
qed

lemma buffer_analysis_Inl:
  assumes "gdf < length h"
      and "series_buffer buf (map geometry (gdf_rows (h ! gdf))) d = Inl e"
  shows "buffer_analysis buf h gdf d = (Inl (LibraryError e), h @ [h ! gdf])"
  using assms by (simp add: buffer_analysis_def Let_def nth_append)

lemma buffer_analysis_Inr:
  assumes "gdf < length h"
      and "series_buffer buf (map geometry (gdf_rows (h ! gdf))) d = Inr gs"
  shows "buffer_analysis buf h gdf d = (Inr (length h), h @ [set_geometry (h ! gdf) gs])"
  using assms by (simp add: buffer_analysis_def Let_def nth_append)

lemma set_geometry_rows:
  assumes "length gs = length (gdf_rows df)"
  shows "gdf_crs (set_geometry df gs) = gdf_crs df"
    and "length (gdf_rows (set_geometry df gs)) = length (gdf_rows df)"
    and "map attrs (gdf_rows (set_geometry df gs)) = map attrs (gdf_rows df)"
    and "map geometry (gdf_rows (set_geometry df gs)) = gs"
    and "gdf_columns (set_geometry df gs) = gdf_columns df"
  using assms
  by (simp_all add: set_geometry_def list_eq_iff_nth_eq)

text \<open>
  Against C8 as stated: on a frame without rows, \<open>buffer_analysis\<close> with the distance
  NaN returns a frame (the copy, at the new address 1), although the buffer used here
  refuses every distance that is not finite.
\<close>

theorem buffer_nan_counterexample:
  "box_buffer (0, 0, 0, 0) NaN = Inl ''ValueError''
   \<and> fst (buffer_analysis box_buffer [empty_layer] 0 NaN) \<noteq> Inl InvalidDistance
   \<and> buffer_analysis box_buffer [empty_layer] 0 NaN = (Inr 1, [empty_layer, empty_layer])"
  by (simp add: buffer_analysis_def set_geometry_def empty_layer_def box_buffer_def)

text \<open>
  C8, amended. \<open>buffer_analysis\<close> does not examine the distance. For every frame and
  every distance, finite or not, it never fails with \<open>InvalidDistance\<close>; when it fails,
  the error is the exception the library's buffer raised for one of the frame's
  geometries at that distance; and on a frame without rows it returns a frame.
\<close>

theorem buffer_analysis_no_distance_check:
  assumes "gdf < length h"
  shows "fst (buffer_analysis buf h gdf d) \<noteq> Inl InvalidDistance
     \<and> (gdf_rows (h ! gdf) = [] \<longrightarrow> fst (buffer_analysis buf h gdf d) = Inr (length h))
     \<and> (\<forall>e. fst (buffer_analysis buf h gdf d) = Inl e \<longrightarrow>
           (\<exists>row \<in> set (gdf_rows (h ! gdf)). \<exists>s.
              buf (geometry row) d = Inl s \<and> e = LibraryError s))"
proof (cases "series_buffer buf (map geometry (gdf_rows (h ! gdf))) d")
  case (Inl e)
  have "\<exists>row \<in> set (gdf_rows (h ! gdf)). buf (geometry row) d = Inl e"
    using series_buffer_Inl[OF Inl] by auto
  moreover have "gdf_rows (h ! gdf) \<noteq> []"
    using Inl by auto
  ultimately show ?thesis
    by (simp add: buffer_analysis_Inl[OF assms Inl])
next
  case (Inr gs)
  then show ?thesis
    by (simp add: buffer_analysis_Inr[OF assms Inr])
qed

text \<open>
  With the distance \<open>+inf\<close>: the frame without rows comes back as a frame, and the two
  points fail with the library's own ValueError.
\<close>

theorem buffer_analysis_no_distance_check_witness:
  "(0::nat) < length [empty_layer, points_layer]
   \<and> (1::nat) < length [empty_layer, points_layer]
   \<and> gdf_rows ([empty_layer, points_layer] ! 0) = []
   \<and> fst (buffer_analysis box_buffer [empty_layer, points_layer] 0 PosInf) = Inr 2
   \<and> fst (buffer_analysis box_buffer [empty_layer, points_layer] 1 PosInf)
       = Inl (LibraryError ''ValueError'')
   \<and> (\<exists>row \<in> set (gdf_rows ([empty_layer, points_layer] ! 1)). \<exists>s.
         box_buffer (geometry row) PosInf = Inl s
       \<and> LibraryError ''ValueError'' = LibraryError s)"
proof -
  have h0: "(0::nat) < length [empty_layer, points_layer]"
    and h1: "(1::nat) < length [empty_layer, points_layer]"
    by simp_all
  have e: "gdf_rows ([empty_layer, points_layer] ! 0) = []"
    by (simp add: empty_layer_def)
  have f: "fst (buffer_analysis box_buffer [empty_layer, points_layer] 1 PosInf)
             = Inl (LibraryError ''ValueError'')"
    by (simp add: buffer_analysis_def points_layer_def box_buffer_def)
  from buffer_analysis_no_distance_check[OF h0, of box_buffer PosInf] e
  have a: "fst (buffer_analysis box_buffer [empty_layer, points_layer] 0 PosInf) = Inr 2"
    by simp
  from buffer_analysis_no_distance_check[OF h1, of box_buffer PosInf] f
  have b: "\<exists>row \<in> set (gdf_rows ([empty_layer, points_layer] ! 1)). \<exists>s.
         box_buffer (geometry row) PosInf = Inl s
       \<and> LibraryError ''ValueError'' = LibraryError s"
    by blast
  show ?thesis
    using h0 h1 e f a b by blast
qed

text \<open>
  C10. Let \<open>gdf\<close> be the address of a frame in the heap. For every distance,
  \<open>buffer_analysis\<close> leaves every frame that was in the heap as it was, the argument
  included, whether it returns or raises. When it returns, the result is a new
  address, distinct from all old ones; the frame there has the CRS and the column names
  of the argument, as many rows in the same order, the same attributes in every row,
  and in row i the
  geometry the library's buffer computed from the argument's geometry in row i. It
  returns whenever the library's buffer raises for none of the geometries.
\<close>

theorem buffer_analysis_frame:
  assumes "gdf < length h"
  shows "(\<forall>a < length h. snd (buffer_analysis buf h gdf d) ! a = h ! a)
     \<and> (\<forall>out. fst (buffer_analysis buf h gdf d) = Inr out \<longrightarrow>
            out = length h
          \<and> length (snd (buffer_analysis buf h gdf d)) = Suc (length h)
          \<and> gdf_crs (snd (buffer_analysis buf h gdf d) ! out) = gdf_crs (h ! gdf)
          \<and> gdf_columns (snd (buffer_analysis buf h gdf d) ! out) = gdf_columns (h ! gdf)
          \<and> length (gdf_rows (snd (buffer_analysis buf h gdf d) ! out))
              = length (gdf_rows (h ! gdf))
          \<and> map attrs (gdf_rows (snd (buffer_analysis buf h gdf d) ! out))
              = map attrs (gdf_rows (h ! gdf))
          \<and> (\<forall>i < length (gdf_rows (h ! gdf)).
                buf (geometry (gdf_rows (h ! gdf) ! i)) d
                  = Inr (geometry (gdf_rows (snd (buffer_analysis buf h gdf d) ! out) ! i))))
     \<and> ((\<forall>row \<in> set (gdf_rows (h ! gdf)). \<exists>g'. buf (geometry row) d = Inr g')
          \<longrightarrow> (\<exists>out. fst (buffer_analysis buf h gdf d) = Inr out))"
proof (cases "series_buffer buf (map geometry (gdf_rows (h ! gdf))) d")
  case (Inl e)
  have "\<not> (\<forall>row \<in> set (gdf_rows (h ! gdf)). \<exists>g'. buf (geometry row) d = Inr g')"
    using series_buffer_Inl[OF Inl] by fastforce
  then show ?thesis
    by (simp add: buffer_analysis_Inl[OF assms Inl] nth_append)
next
  case (Inr gs)
  note len = series_buffer_Inr[OF Inr]
  have eq: "length gs = length (gdf_rows (h ! gdf))"
    using len by simp
  have geom: "\<forall>i < length (gdf_rows (h ! gdf)).
      buf (geometry (gdf_rows (h ! gdf) ! i)) d
        = Inr (geometry (gdf_rows (set_geometry (h ! gdf) gs) ! i))"
  proof (intro allI impI)
    fix i assume i: "i < length (gdf_rows (h ! gdf))"
    have "geometry (gdf_rows (set_geometry (h ! gdf) gs) ! i)
            = map geometry (gdf_rows (set_geometry (h ! gdf) gs)) ! i"
      using i set_geometry_rows(2)[OF eq] by simp
    also have "\<dots> = gs ! i"
      by (simp only: set_geometry_rows(4)[OF eq])
    finally show "buf (geometry (gdf_rows (h ! gdf) ! i)) d
        = Inr (geometry (gdf_rows (set_geometry (h ! gdf) gs) ! i))"
      using len i by simp
  qed
  show ?thesis
    using geom set_geometry_rows(1-3,5)[OF eq]
    by (simp add: buffer_analysis_Inr[OF assms Inr] nth_append)
qed

text \<open>
  The two points buffered by 1: the heap keeps the points at address 0 and gains, at
  address 1, two boxes of side 2 with the points' attributes.
\<close>

theorem buffer_analysis_frame_witness:
  "(0::nat) < length [points_layer]
   \<and> list_all (\<lambda>row. \<not> isl (box_buffer (geometry row) (Finite 1)))
         (gdf_rows ([points_layer] ! 0))
   \<and> fst (buffer_analysis box_buffer [points_layer] 0 (Finite 1)) = Inr 1
   \<and> snd (buffer_analysis box_buffer [points_layer] 0 (Finite 1)) ! 0 = points_layer
   \<and> gdf_crs (snd (buffer_analysis box_buffer [points_layer] 0 (Finite 1)) ! 1)
       = gdf_crs points_layer
   \<and> map attrs (gdf_rows (snd (buffer_analysis box_buffer [points_layer] 0 (Finite 1)) ! 1))
       = [''station'', ''depot'']
   \<and> box_buffer (0, 0, 0, 0) (Finite 1)
       = Inr (geometry (gdf_rows
                (snd (buffer_analysis box_buffer [points_layer] 0 (Finite 1)) ! 1) ! 0))"
proof -
  have h0: "(0::nat) < length [points_layer]"
    by simp
  have ok: "\<forall>row \<in> set (gdf_rows ([points_layer] ! 0)). \<exists>g'.
              box_buffer (geometry row) (Finite 1) = Inr g'"
    by (simp add: points_layer_def box_buffer_def)
  note frame = buffer_analysis_frame[OF h0, of box_buffer "Finite 1"]
  from frame ok obtain out
    where out: "fst (buffer_analysis box_buffer [points_layer] 0 (Finite 1)) = Inr out"
    by blast
  with frame have o1: "out = 1"
    by simp
  have rows: "map attrs (gdf_rows points_layer) = [''station'', ''depot'']"
    and g0: "geometry (gdf_rows points_layer ! 0) = (0, 0, 0, 0)"
    and n: "0 < length (gdf_rows points_layer)"
    by (simp_all add: points_layer_def)
  from frame out o1 have
    "snd (buffer_analysis box_buffer [points_layer] 0 (Finite 1)) ! 0 = points_layer"
    "gdf_crs (snd (buffer_analysis box_buffer [points_layer] 0 (Finite 1)) ! 1)
       = gdf_crs points_layer"
    "map attrs (gdf_rows (snd (buffer_analysis box_buffer [points_layer] 0 (Finite 1)) ! 1))
       = map attrs (gdf_rows points_layer)"
    "box_buffer (geometry (gdf_rows points_layer ! 0)) (Finite 1)
       = Inr (geometry (gdf_rows
                (snd (buffer_analysis box_buffer [points_layer] 0 (Finite 1)) ! 1) ! 0))"
    using n by simp_all
  moreover have "list_all (\<lambda>row. \<not> isl (box_buffer (geometry row) (Finite 1)))
                   (gdf_rows ([points_layer] ! 0))"
    by (simp add: points_layer_def box_buffer_def)
  ultimately show ?thesis
    using h0 out o1 rows g0 by simp
qed






subsection \<open>Statistics\<close>

text \<open>
  C9. \<open>calculate_statistics\<close> has no failing branch: for every frame it yields a
  result, and the result's \<open>feature_count\<close> is the number of rows. On a frame without
  rows the result is \<open>feature_count = 0\<close>, \<open>total_area = 0\<close>, \<open>mean_area = NaN\<close>,
  four NaN as bounds, and the CRS string.
\<close>

theorem calculate_statistics_feature_count:
  "feature_count (calculate_statistics area bnds gdf) = length (gdf_rows gdf)
   \<and> calculate_statistics area bnds \<lparr> gdf_crs = c, gdf_columns = cols, gdf_rows = [] \<rparr> =
       \<lparr> feature_count = 0, total_area = Finite 0, mean_area = NaN,
         st_bounds = [NaN, NaN, NaN, NaN],
         st_crs = (case c of None \<Rightarrow> ''None'' | Some s \<Rightarrow> s) \<rparr>"
  by (simp add: calculate_statistics_def series_sum_def series_mean_def total_bounds_def
        List.map_filter_simps)

theorem calculate_statistics_feature_count_witness:
  "feature_count (calculate_statistics box_area Some points_layer) = 2
   \<and> calculate_statistics box_area Some empty_layer =
       \<lparr> feature_count = 0, total_area = Finite 0, mean_area = NaN,
         st_bounds = [NaN, NaN, NaN, NaN], st_crs = ''EPSG:4326'' \<rparr>"
proof -
  have n: "length (gdf_rows points_layer) = 2"
    by (simp add: points_layer_def)
  have e: "empty_layer =
             \<lparr> gdf_crs = Some ''EPSG:4326'', gdf_columns = [''name''], gdf_rows = [] \<rparr>"
    by (simp add: empty_layer_def)
  from calculate_statistics_feature_count
         [of box_area Some points_layer "Some ''EPSG:4326''" "[''name'']"]
  show ?thesis
    by (simp add: n e)
qed

end
